theory Spec2Isabelle
  imports Main "HOL-Library.Char_ord" "HOL-Library.List_Lexorder"
begin

section \<open>Context values (utils) and the deployments tree item (appservice)\<close>

text \<open>
  JavaScript strings are modelled as \<^typ>\<open>string\<close>; the order on them is the
  lexicographic order on character codes, which is the order of the default
  \<^verbatim>\<open>Array.prototype.sort\<close> on strings.
\<close>

text \<open>\<^verbatim>\<open>Array.prototype.join\<close> with an explicit separator.\<close>

fun joinWith :: "string \<Rightarrow> string list \<Rightarrow> string" where
  "joinWith sep [] = []"
| "joinWith sep [x] = x"
| "joinWith sep (x # y # ys) = x @ sep @ joinWith sep (y # ys)"

text \<open>
  Modelled from the spec: the body of \<^verbatim>\<open>createContextValue\<close> is missing; only its
  declaration is present (utils/index.d.ts, "returns a sorted, unique string of values
  separated by \<^verbatim>\<open>;\<close>"). The spec calls the result a deduped, alphabetized,
  semicolon-joined set of tags: duplicates are dropped, the remaining tags are sorted,
  and the sorted tags are joined by \<^verbatim>\<open>;\<close>.
\<close>

definition createContextValue :: "string list \<Rightarrow> string" where
  "createContextValue vals = joinWith '';'' (sort (remdups vals))"

text \<open>
  The members of the enum \<^verbatim>\<open>ScmType\<close> (appservice/src/ScmType, not among the sources)
  and the other names the tree item takes from its host are parameters of the model.
\<close>

record Host =
  ScmType_None :: string
  ScmType_LocalGit :: string
  ScmType_GitHub :: string
  l10n_t :: "string \<Rightarrow> string"
  ext_prefix :: string

text \<open>
  The fields of a \<^verbatim>\<open>DeploymentsTreeItem\<close>. \<^verbatim>\<open>parent\<close> is the field the base class
  constructor stores; \<^verbatim>\<open>private_scmType\<close> and \<^verbatim>\<open>private_repoUrl\<close> are the private
  optional fields \<^verbatim>\<open>_scmType\<close> and \<^verbatim>\<open>_repoUrl\<close> (\<open>None\<close> is \<^verbatim>\<open>undefined\<close>).
\<close>

record ('site, 'parent) DeploymentsTreeItem =
  parent :: 'parent
  label :: string
  childTypeLabel :: string
  site :: 'site
  suppressMaskLabel :: bool
  contextValuesToAdd :: "string list"
  private_scmType :: "string option"
  private_repoUrl :: "string option"

record 'site DeploymentsTreeItemOptions =
  options_site :: 'site
  options_contextValuesToAdd :: "string list option"

definition contextValueConnected :: string where
  "contextValueConnected = ''deploymentsConnected''"

definition contextValueUnconnected :: string where
  "contextValueUnconnected = ''deploymentsUnconnected''"

text \<open>The constructor: \<^verbatim>\<open>options?.contextValuesToAdd || []\<close> is the empty list when
  the option is absent.\<close>

definition DeploymentsTreeItem_new ::
  "Host \<Rightarrow> 'parent \<Rightarrow> 'site DeploymentsTreeItemOptions \<Rightarrow> ('site, 'parent) DeploymentsTreeItem" where
  "DeploymentsTreeItem_new H p options =
     \<lparr> parent = p,
       label = l10n_t H ''Deployments'',
       childTypeLabel = l10n_t H ''Deployment'',
       site = options_site options,
       suppressMaskLabel = True,
       contextValuesToAdd =
         (case options_contextValuesToAdd options of None \<Rightarrow> [] | Some vs \<Rightarrow> vs),
       private_scmType = None,
       private_repoUrl = None \<rparr>"

text \<open>The list the \<^verbatim>\<open>contextValue\<close> getter hands to \<^verbatim>\<open>createContextValue\<close>: the
  base tag, then the spread of \<^verbatim>\<open>contextValuesToAdd\<close>.\<close>

definition contextValueTags ::
  "Host \<Rightarrow> ('site, 'parent, 'z) DeploymentsTreeItem_scheme \<Rightarrow> string list" where
  "contextValueTags H ti =
     (if private_scmType ti = Some (ScmType_None H)
      then contextValueUnconnected else contextValueConnected) # contextValuesToAdd ti"

definition contextValue ::
  "Host \<Rightarrow> ('site, 'parent, 'z) DeploymentsTreeItem_scheme \<Rightarrow> string" where
  "contextValue H ti = createContextValue (contextValueTags H ti)"

text \<open>A host for the closed examples, with the enum members spelled as their names.\<close>

definition exampleHost :: Host where
  "exampleHost =
     \<lparr> ScmType_None = ''None'', ScmType_LocalGit = ''LocalGit'', ScmType_GitHub = ''GitHub'',
       l10n_t = (\<lambda>s. s), ext_prefix = ''appService'' \<rparr>"

section \<open>The action context and parsed errors (utils)\<close>

text \<open>The optional flags of \<^verbatim>\<open>IErrorHandlingContext\<close>; \<open>None\<close> is an absent flag. The
  further members of the two interfaces (\<^verbatim>\<open>buttons\<close>, \<^verbatim>\<open>issueProperties\<close>; \<^verbatim>\<open>telemetry\<close>,
  \<^verbatim>\<open>ui\<close>, \<^verbatim>\<open>valuesToMask\<close>) are the extensions of the records. The tree item only
  passes its context on, so there the context is of any type \<open>'ctx\<close>.\<close>

record IErrorHandlingContext =
  suppressDisplay :: "bool option"
  rethrow :: "bool option"
  suppressReportIssue :: "bool option"
  forceIncludeInReportIssueCommand :: "bool option"

record 'h IActionContext =
  errorHandling :: "'h IErrorHandlingContext_scheme"

record IParsedError =
  errorType :: string
  message :: string
  stack :: "string option"
  stepName :: "string option"
  isUserCancelledError :: bool

section \<open>The site client and the calls it makes\<close>

record SiteConfig =
  scmType :: "string option"

record SiteSourceControl =
  repoUrl :: "string option"

record DeployResult =
  dr_id :: "string option"

text \<open>
  A call of the client is a step on the state \<open>'b\<close> of the service behind it: it
  returns the rejection (\<open>Inl\<close>) or the value (\<open>Inr\<close>) of the promise, and the next
  state. The world keeps the log of the calls made, in order.
\<close>

record ('ctx, 'b, 'e, 'd) SiteClient =
  getSiteConfig :: "'b \<Rightarrow> ('e + SiteConfig) \<times> 'b"
  getSourceControl :: "'b \<Rightarrow> ('e + SiteSourceControl) \<times> 'b"
  getDeployResults :: "'ctx \<Rightarrow> 'b \<Rightarrow> ('e + 'd list) \<times> 'b"

record ('ctx, 'b, 'e, 'd) ParsedSite =
  createClient :: "'ctx \<Rightarrow> 'b \<Rightarrow> ('e + ('ctx, 'b, 'e, 'd) SiteClient) \<times> 'b"

datatype sdk_call = CreateClient | GetSiteConfig | GetSourceControl | GetDeployResults

record 'b World =
  backend :: 'b
  calls :: "sdk_call list"

type_synonym ('b, 'e, 'r) async = "'b World \<Rightarrow> ('e + 'r) \<times> 'b World"

definition sdk :: "sdk_call \<Rightarrow> ('b \<Rightarrow> ('e + 'r) \<times> 'b) \<Rightarrow> ('b, 'e, 'r) async" where
  "sdk c f W =
     (case f (backend W) of (r, b') \<Rightarrow> (r, \<lparr> backend = b', calls = calls W @ [c] \<rparr>))"

definition numCalls :: "sdk_call \<Rightarrow> 'b World \<Rightarrow> nat" where
  "numCalls c W = count_list (calls W) c"

section \<open>DeploymentsTreeItem: init, refreshImpl, loadMoreChildrenImpl, compareChildrenImpl\<close>

definition init ::
  "'ctx \<Rightarrow> (('ctx, 'b, 'e, 'd) ParsedSite, 'parent, 'z) DeploymentsTreeItem_scheme \<Rightarrow>
   'b World \<Rightarrow>
   ('e + unit) \<times> (('ctx, 'b, 'e, 'd) ParsedSite, 'parent, 'z) DeploymentsTreeItem_scheme \<times> 'b World" where
  "init context ti W =
     (case sdk CreateClient (createClient (site ti) context) W of
        (Inl e, W1) \<Rightarrow> (Inl e, ti, W1)
      | (Inr client, W1) \<Rightarrow>
          (case sdk GetSiteConfig (getSiteConfig client) W1 of
             (Inl e, W2) \<Rightarrow> (Inl e, ti, W2)
           | (Inr siteConfig, W2) \<Rightarrow>
               (case sdk GetSourceControl (getSourceControl client) W2 of
                  (Inl e, W3) \<Rightarrow> (Inl e, ti, W3)
                | (Inr sourceControl, W3) \<Rightarrow>
                    (Inr (),
                     ti\<lparr> private_scmType := scmType siteConfig,
                         private_repoUrl := repoUrl sourceControl \<rparr>,
                     W3))))"

definition refreshImpl ::
  "'ctx \<Rightarrow> (('ctx, 'b, 'e, 'd) ParsedSite, 'parent, 'z) DeploymentsTreeItem_scheme \<Rightarrow>
   'b World \<Rightarrow>
   ('e + unit) \<times> (('ctx, 'b, 'e, 'd) ParsedSite, 'parent, 'z) DeploymentsTreeItem_scheme \<times> 'b World" where
  "refreshImpl context ti W =
     (case sdk CreateClient (createClient (site ti) context) W of
        (Inl e, W1) \<Rightarrow> (Inl e, ti, W1)
      | (Inr client, W1) \<Rightarrow>
          (case sdk GetSiteConfig (getSiteConfig client) W1 of
             (Inl e, W2) \<Rightarrow> (Inl e, ti, W2)
           | (Inr siteConfig, W2) \<Rightarrow>
               (case sdk GetSourceControl (getSourceControl client) W2 of
                  (Inl e, W3) \<Rightarrow> (Inl e, ti, W3)
                | (Inr sourceControl, W3) \<Rightarrow>
                    (Inr (),
                     ti\<lparr> private_scmType := scmType siteConfig,
                         private_repoUrl := repoUrl sourceControl \<rparr>,
                     W3))))"

text \<open>
  A Date holds a time value: NaN (an invalid Date) or an integral number of
  milliseconds of magnitude at most 8.64e15. \<^verbatim>\<open>valueOf()\<close> reads it; a number beyond
  that magnitude cannot be stored in a Date (the constructor clips it to NaN), so it
  reads as NaN.
\<close>

datatype Date = InvalidDate | TimeValue int





text \<open>
  The children. \<^verbatim>\<open>DeploymentTreeItem\<close> (its class is not among the sources) carries
  \<^verbatim>\<open>receivedTime\<close>, a Date. A \<^verbatim>\<open>GenericTreeItem\<close> is told apart by \<^verbatim>\<open>instanceof\<close>.
  \<^verbatim>\<open>createTreeItemsWithErrorHandling\<close> returns \<^verbatim>\<open>AzExtTreeItem[]\<close> and shows an invalid
  source object as an \<^verbatim>\<open>InvalidTreeItem\<close>, which is no \<^verbatim>\<open>GenericTreeItem\<close> and has no
  \<^verbatim>\<open>receivedTime\<close>.
\<close>

record DeploymentTreeItem =
  receivedTime :: Date

record GenericTreeItem =
  generic_commandId :: "string option"
  generic_contextValue :: string
  generic_label :: string

record InvalidTreeItem =
  invalid_label :: string
  invalid_contextValue :: string
  invalid_description :: "string option"

datatype 'dt child =
  DeploymentChild 'dt | GenericChild GenericTreeItem | InvalidChild InvalidTreeItem



text \<open>The arrow function handed to \<^verbatim>\<open>retryKuduCall\<close>: one call of
  \<^verbatim>\<open>client.getDeployResults(context)\<close>.\<close>

definition deployResultsCallback ::
  "('ctx, 'b, 'e, 'd) SiteClient \<Rightarrow> 'ctx \<Rightarrow> ('b, 'e, 'd list) async" where
  "deployResultsCallback client context = sdk GetDeployResults (getDeployResults client context)"

text \<open>The label function handed to \<^verbatim>\<open>createTreeItemsWithErrorHandling\<close>:
  \<^verbatim>\<open>dr.id ? dr.id.substring(0, 7) : undefined\<close> (the empty string is falsy).\<close>

definition deploymentLabelOnError :: "'y DeployResult_scheme \<Rightarrow> string option" where
  "deploymentLabelOnError dr =
     (case dr_id dr of
        None \<Rightarrow> None
      | Some s \<Rightarrow> if s = [] then None else Some (take 7 s))"

definition connectToGitHubItem :: "Host \<Rightarrow> GenericTreeItem" where
  "connectToGitHubItem H =
     \<lparr> generic_commandId = Some (ext_prefix H @ ''.connectToGitHub''),
       generic_contextValue = ''ConnectToGithub'',
       generic_label = ''Connect to a GitHub Repository...'' \<rparr>"

text \<open>
  \<^verbatim>\<open>loadMoreChildrenImpl\<close>. Three functions it calls are not among the sources and
  are parameters: \<open>retryKuduCall\<close> (appservice/src/utils/kuduUtils), which receives
  the context, the method name and the callback and decides how the callback is run;
  \<open>createTreeItemsWithErrorHandling\<close> (the base class in utils) and the constructor
  \<open>newDeploymentTreeItem\<close>.
\<close>

definition loadMoreChildrenImpl ::
  "Host \<Rightarrow>
   ('ctx \<Rightarrow> string \<Rightarrow> ('b, 'e, 'y DeployResult_scheme list) async \<Rightarrow>
      ('b, 'e, 'y DeployResult_scheme list) async) \<Rightarrow>
   ('y DeployResult_scheme list \<Rightarrow> string \<Rightarrow> ('y DeployResult_scheme \<Rightarrow> 'dt) \<Rightarrow>
      ('y DeployResult_scheme \<Rightarrow> string option) \<Rightarrow> 'dt child list) \<Rightarrow>
   ((('ctx, 'b, 'e, 'y DeployResult_scheme) ParsedSite, 'parent, 'z) DeploymentsTreeItem_scheme \<Rightarrow>
      'y DeployResult_scheme \<Rightarrow> string option \<Rightarrow> 'dt) \<Rightarrow>
   bool \<Rightarrow> 'ctx \<Rightarrow>
   (('ctx, 'b, 'e, 'y DeployResult_scheme) ParsedSite, 'parent, 'z) DeploymentsTreeItem_scheme \<Rightarrow>
   'b World \<Rightarrow>
   ('e + 'dt child list) \<times>
   (('ctx, 'b, 'e, 'y DeployResult_scheme) ParsedSite, 'parent, 'z) DeploymentsTreeItem_scheme \<times>
   'b World" where
  "loadMoreChildrenImpl H retryKuduCall createTreeItemsWithErrorHandling newDeploymentTreeItem
       clearCache context ti W =
     (case init context ti W of
        (Inl e, ti1, W1) \<Rightarrow> (Inl e, ti1, W1)
      | (Inr u, ti1, W1) \<Rightarrow>
          (case sdk CreateClient (createClient (site ti1) context) W1 of
             (Inl e, W2) \<Rightarrow> (Inl e, ti1, W2)
           | (Inr client, W2) \<Rightarrow>
               (case retryKuduCall context ''getDeployResults''
                       (deployResultsCallback client context) W2 of
                  (Inl e, W3) \<Rightarrow> (Inl e, ti1, W3)
                | (Inr deployments, W3) \<Rightarrow>
                    (let children =
                           createTreeItemsWithErrorHandling deployments ''invalidDeployment''
                             (\<lambda>dr. newDeploymentTreeItem ti1 dr (private_scmType ti1))
                             deploymentLabelOnError
                     in (Inr (if private_scmType ti1 = Some (ScmType_None H)
                              then children @ [GenericChild (connectToGitHubItem H)]
                              else children),
                         ti1, W3)))))"

section \<open>registerSiteCommand (appservice)\<close>

text \<open>
  A thrown value is either the value the callback threw, passed on as it is, or an
  \<^verbatim>\<open>Error\<close> made with \<^verbatim>\<open>new Error(message)\<close>. What the registered handler returns is
  either the callback's result or \<^verbatim>\<open>undefined\<close>, which is what an \<^verbatim>\<open>async\<close> function
  returns when its \<^verbatim>\<open>catch\<close> block ends without a \<^verbatim>\<open>return\<close>.
\<close>

datatype 'e thrown = Original 'e | NewError string

datatype 'r returned = Result 'r | Undefined

text \<open>
  \<^verbatim>\<open>handleSiteErrors\<close> is declared to return \<^verbatim>\<open>void\<close>; \<open>Inr ()\<close> would be its
  normal return. \<^verbatim>\<open>parseError\<close> (utils, declaration only) and \<^verbatim>\<open>localize\<close>
  (appservice/src/localize, not among the sources) are parameters.
\<close>

definition handleSiteErrors ::
  "('e \<Rightarrow> IParsedError) \<Rightarrow> (string \<Rightarrow> string \<Rightarrow> string) \<Rightarrow>
   ('h, 'c) IActionContext_scheme \<Rightarrow> 'e \<Rightarrow> ('e thrown + unit) \<times> ('h, 'c) IActionContext_scheme" where
  "handleSiteErrors parseError localize context error =
     (let parsedError = parseError error in
      if errorType parsedError = ''502'' \<or> errorType parsedError = ''503'' then
        (let context' =
               context\<lparr> errorHandling :=
                          (errorHandling context)\<lparr> suppressReportIssue := Some True \<rparr> \<rparr>;
             troubleshooting =
               localize ''502or503Troubleshooting''
                 ''View troubleshooting tips [here](https://aka.ms/AA772mm).''
         in (Inl (NewError (message parsedError @ '' '' @ troubleshooting)), context'))
      else (Inl (Original error), context))"

text \<open>The handler that \<^verbatim>\<open>registerSiteCommand\<close> builds around the callback. The
  callback may change the context before it returns or throws.\<close>

definition siteCommandHandler ::
  "('e \<Rightarrow> IParsedError) \<Rightarrow> (string \<Rightarrow> string \<Rightarrow> string) \<Rightarrow>
   (('h, 'c) IActionContext_scheme \<Rightarrow> 'arg list \<Rightarrow> ('e + 'r) \<times> ('h, 'c) IActionContext_scheme) \<Rightarrow>
   ('h, 'c) IActionContext_scheme \<Rightarrow> 'arg list \<Rightarrow> ('e thrown + 'r returned) \<times> ('h, 'c) IActionContext_scheme" where
  "siteCommandHandler parseError localize callback context args =
     (case callback context args of
        (Inr r, context1) \<Rightarrow> (Inr (Result r), context1)
      | (Inl error, context1) \<Rightarrow>
          (case handleSiteErrors parseError localize context1 error of
             (Inl t, context2) \<Rightarrow> (Inl t, context2)
           | (Inr u, context2) \<Rightarrow> (Inr Undefined, context2)))"

text \<open>\<^verbatim>\<open>registerCommand\<close> (utils, declaration only) is a parameter: it receives the
  command id, the handler and the debounce.\<close>

definition registerSiteCommand ::
  "(string \<Rightarrow> (('h, 'c) IActionContext_scheme \<Rightarrow> 'arg list \<Rightarrow> ('e thrown + 'r returned) \<times> ('h, 'c) IActionContext_scheme) \<Rightarrow>
      nat option \<Rightarrow> 'reg) \<Rightarrow>
   ('e \<Rightarrow> IParsedError) \<Rightarrow> (string \<Rightarrow> string \<Rightarrow> string) \<Rightarrow>
   string \<Rightarrow> (('h, 'c) IActionContext_scheme \<Rightarrow> 'arg list \<Rightarrow> ('e + 'r) \<times> ('h, 'c) IActionContext_scheme) \<Rightarrow> nat option \<Rightarrow> 'reg" where
  "registerSiteCommand registerCommand parseError localize commandId callback debounce =
     registerCommand commandId (siteCommandHandler parseError localize callback) debounce"

section \<open>The stale-closer action (triage-actions)\<close>

text \<open>The action's metadata file, action.yml: a key that the file leaves out is
  \<open>None\<close>.\<close>

record ActionInput =
  input_description :: string
  input_default :: "string option"
  input_required :: "bool option"

record ActionRuns =
  runs_using :: string
  runs_main :: string

record ActionMetadata =
  action_name :: string
  action_description :: string
  action_inputs :: "(string \<times> ActionInput) list"
  action_outputs :: "(string \<times> string) list option"
  action_runs :: ActionRuns

definition staleCloserAction :: ActionMetadata where
  "staleCloserAction =
     \<lparr> action_name = ''Stale Closer'',
       action_description = ''Closes stale issues that have not had activity or upvotes'',
       action_inputs =
         [(''token'',
             \<lparr> input_description =
                 ''GitHub token with issue, comment, and label read/write permissions'',
               input_default = Some ''${{ github.token }}'', input_required = None \<rparr>),
          (''closeDays'',
             \<lparr> input_description = ''Days to wait before closing the issue'',
               input_default = None, input_required = Some True \<rparr>),
          (''closeComment'',
             \<lparr> input_description = ''Comment to add upon closing the issue'',
               input_default = None, input_required = Some True \<rparr>),
          (''warnDays'',
             \<lparr> input_description =
                 ''Number of days before closing the issue to warn about it's impending closure'',
               input_default = None, input_required = Some True \<rparr>),
          (''warnComment'',
             \<lparr> input_description = ''Comment when an issue is nearing automatic closure'',
               input_default = None, input_required = Some True \<rparr>),
          (''upvotesRequired'',
             \<lparr> input_description = ''Number of upvotes required to prevent automatic closure'',
               input_default = None, input_required = Some True \<rparr>),
          (''numCommentsOverride'',
             \<lparr> input_description = ''Number of comments required to prevent automatic closure'',
               input_default = None, input_required = Some True \<rparr>),
          (''candidateMilestone'',
             \<lparr> input_description =
                 ''Milestone with candidate issues that will be checked for automatic closure'',
               input_default = None, input_required = Some True \<rparr>),
          (''labelsToExclude'',
             \<lparr> input_description =
                 ''Comma-separated list of labels to exclude from automatic closure'',
               input_default = None, input_required = None \<rparr>),
          (''staleLabel'',
             \<lparr> input_description = ''Optional label to apply when closing the issue'',
               input_default = None, input_required = None \<rparr>),
          (''readonly'',
             \<lparr> input_description = ''If set, perform a dry-run'',
               input_default = None, input_required = None \<rparr>)],
       action_outputs = None,
       action_runs = \<lparr> runs_using = ''node12'', runs_main = ''index.js'' \<rparr> \<rparr>"

text \<open>The inputs as the action reads them (the optional ones are \<open>None\<close> when not
  given), and what the rule looks at in an issue.\<close>

record StaleCloserInputs =
  token :: string
  closeDays :: nat
  closeComment :: string
  warnDays :: nat
  warnComment :: string
  upvotesRequired :: nat
  numCommentsOverride :: nat
  candidateMilestone :: string
  labelsToExclude :: "string option"
  staleLabel :: "string option"
  readonly :: "string option"




section \<open>Fixtures of the closed examples\<close>

definition exampleParseError :: "string \<times> string \<Rightarrow> IParsedError" where
  "exampleParseError e =
     \<lparr> errorType = fst e, message = snd e, stack = None, stepName = None,
       isUserCancelledError = False \<rparr>"

definition defaultLocalize :: "string \<Rightarrow> string \<Rightarrow> string" where
  "defaultLocalize key defaultValue = defaultValue"

definition exampleContext :: "unit IActionContext" where
  "exampleContext =
     \<lparr> errorHandling =
         \<lparr> suppressDisplay = None, rethrow = None, suppressReportIssue = None,
           forceIncludeInReportIssueCommand = None \<rparr> \<rparr>"

definition throwingCallback ::
  "string \<times> string \<Rightarrow> unit IActionContext \<Rightarrow> nat list \<Rightarrow> (string \<times> string + nat) \<times> unit IActionContext" where
  "throwingCallback e context args = (Inl e, context)"

definition summingCallback ::
  "unit IActionContext \<Rightarrow> nat list \<Rightarrow> (string \<times> string + nat) \<times> unit IActionContext" where
  "summingCallback context args = (Inr (sum_list args), context)"

text \<open>A service whose first \<^verbatim>\<open>getDeployResults\<close> answers 502 and whose later ones
  answer with one deployment; its state counts the answers given. A second service
  rejects \<^verbatim>\<open>getSiteConfig\<close>.\<close>

definition flakyClient :: "(unit IActionContext, nat, string, DeployResult) SiteClient" where
  "flakyClient =
     \<lparr> getSiteConfig = (\<lambda>b. (Inr \<lparr> scmType = Some ''None'' \<rparr>, b)),
       getSourceControl = (\<lambda>b. (Inr \<lparr> repoUrl = None \<rparr>, b)),
       getDeployResults =
         (\<lambda>context b. (if b = 0 then Inl ''502'' else Inr [\<lparr> dr_id = Some ''0123456789'' \<rparr>],
                        Suc b)) \<rparr>"

definition flakySite :: "(unit IActionContext, nat, string, DeployResult) ParsedSite" where
  "flakySite = \<lparr> createClient = (\<lambda>context b. (Inr flakyClient, b)) \<rparr>"

definition downClient :: "(unit IActionContext, nat, string, DeployResult) SiteClient" where
  "downClient =
     \<lparr> getSiteConfig = (\<lambda>b. (Inl ''503'', b)),
       getSourceControl = (\<lambda>b. (Inr \<lparr> repoUrl = None \<rparr>, b)),
       getDeployResults = (\<lambda>context b. (Inr [], Suc b)) \<rparr>"

definition downSite :: "(unit IActionContext, nat, string, DeployResult) ParsedSite" where
  "downSite = \<lparr> createClient = (\<lambda>context b. (Inr downClient, b)) \<rparr>"

text \<open>A third service, whose \<^verbatim>\<open>createClient\<close> is rejected once the source control has
  been read.\<close>

definition lapsingClient :: "(unit IActionContext, nat, string, DeployResult) SiteClient" where
  "lapsingClient =
     \<lparr> getSiteConfig = (\<lambda>b. (Inr \<lparr> scmType = Some ''GitHub'' \<rparr>, b)),
       getSourceControl =
         (\<lambda>b. (Inr \<lparr> repoUrl = Some ''https://github.com/org/repo'' \<rparr>, Suc b)),
       getDeployResults = (\<lambda>context b. (Inr [], b)) \<rparr>"

definition lapsingSite :: "(unit IActionContext, nat, string, DeployResult) ParsedSite" where
  "lapsingSite =
     \<lparr> createClient = (\<lambda>context b. (if b = 0 then Inr lapsingClient else Inl ''401'', b)) \<rparr>"

definition lapsingItem :: "((unit IActionContext, nat, string, DeployResult) ParsedSite, unit) DeploymentsTreeItem" where
  "lapsingItem =
     DeploymentsTreeItem_new exampleHost ()
       \<lparr> options_site = lapsingSite, options_contextValuesToAdd = None \<rparr>"

definition freshWorld :: "nat World" where
  "freshWorld = \<lparr> backend = 0, calls = [] \<rparr>"

text \<open>Two ways of running a callback: once, and again after each rejection for up to
  \<open>n\<close> further attempts.\<close>

definition runOnce :: "'ctx \<Rightarrow> string \<Rightarrow> ('b, 'e, 'r) async \<Rightarrow> ('b, 'e, 'r) async" where
  "runOnce context methodName callback = callback"

fun runWithRetries ::
  "nat \<Rightarrow> 'ctx \<Rightarrow> string \<Rightarrow> ('b, 'e, 'r) async \<Rightarrow> ('b, 'e, 'r) async" where
  "runWithRetries 0 context methodName callback W = callback W"
| "runWithRetries (Suc n) context methodName callback W =
     (case callback W of
        (Inl e, W') \<Rightarrow> runWithRetries n context methodName callback W'
      | (Inr r, W') \<Rightarrow> (Inr r, W'))"

definition mapTreeItems ::
  "'d list \<Rightarrow> string \<Rightarrow> ('d \<Rightarrow> 'dt) \<Rightarrow> ('d \<Rightarrow> string option) \<Rightarrow> 'dt child list" where
  "mapTreeItems sourceArray invalidContextValue createTreeItem getLabelOnError =
     map (\<lambda>source. DeploymentChild (createTreeItem source)) sourceArray"

definition epochDeploymentTreeItem ::
  "((unit IActionContext, nat, string, DeployResult) ParsedSite, unit) DeploymentsTreeItem \<Rightarrow> DeployResult \<Rightarrow>
   string option \<Rightarrow> DeploymentTreeItem" where
  "epochDeploymentTreeItem ti dr scm = \<lparr> receivedTime = TimeValue 0 \<rparr>"

definition flakyItem :: "((unit IActionContext, nat, string, DeployResult) ParsedSite, unit) DeploymentsTreeItem" where
  "flakyItem =
     DeploymentsTreeItem_new exampleHost ()
       \<lparr> options_site = flakySite, options_contextValuesToAdd = Some [''b'', ''a'', ''b''] \<rparr>"

definition downItem :: "((unit IActionContext, nat, string, DeployResult) ParsedSite, unit) DeploymentsTreeItem" where
  "downItem =
     DeploymentsTreeItem_new exampleHost ()
       \<lparr> options_site = downSite, options_contextValuesToAdd = None \<rparr>"







section \<open>Theorems\<close>

subsection \<open>Context values\<close>

text \<open>
  C1. For every list of tags, \<open>createContextValue\<close> returns the tags of the list as a
  set, each once, in ascending order, joined by \<^verbatim>\<open>;\<close>. The \<^verbatim>\<open>contextValue\<close> getter of
  a \<^verbatim>\<open>DeploymentsTreeItem\<close> is that string for the base tag (connected or unconnected)
  together with \<^verbatim>\<open>contextValuesToAdd\<close>.
\<close>

theorem createContextValue_deduped_sorted_joined:
  "createContextValue vals = joinWith '';'' (sorted_list_of_set (set vals)) \<and>
   distinct (sorted_list_of_set (set vals)) \<and>
   sorted (sorted_list_of_set (set vals)) \<and>
   set (sorted_list_of_set (set vals)) = set vals \<and>
   contextValue H ti =
     joinWith '';'' (sorted_list_of_set
        (insert (if private_scmType ti = Some (ScmType_None H)
                 then ''deploymentsUnconnected'' else ''deploymentsConnected'')
           (set (contextValuesToAdd ti))))"
proof -
  have joined: "createContextValue xs = joinWith '';'' (sorted_list_of_set (set xs))" for xs
    unfolding createContextValue_def sorted_list_of_set_sort_remdups ..
  have tags: "set (contextValueTags H ti) =
      insert (if private_scmType ti = Some (ScmType_None H)
              then ''deploymentsUnconnected'' else ''deploymentsConnected'')
        (set (contextValuesToAdd ti))"
    unfolding contextValueTags_def contextValueConnected_def contextValueUnconnected_def
    by (rule list.set(2))
  have "contextValue H ti = joinWith '';'' (sorted_list_of_set (set (contextValueTags H ti)))"
    unfolding contextValue_def by (rule joined)
  with tags joined [of vals] show ?thesis
    by (simp only: distinct_sorted_list_of_set sorted_sorted_list_of_set
        set_sorted_list_of_set finite_set simp_thms)
qed

theorem createContextValue_deduped_sorted_joined_witness:
  "createContextValue [''b'', ''a'', ''b'', ''deploymentsConnected''] = ''a;b;deploymentsConnected'' \<and>
   contextValue exampleHost flakyItem = ''a;b;deploymentsConnected''"
proof -
  have "sorted_list_of_set (set [''b'', ''a'', ''b'', ''deploymentsConnected'']) = [''a'', ''b'', ''deploymentsConnected'']"
    by code_simp
  moreover have "sorted_list_of_set (insert ''deploymentsConnected'' (set [''b'', ''a'', ''b''])) = [''a'', ''b'', ''deploymentsConnected'']"
    by code_simp
  moreover have "private_scmType flakyItem = None" "contextValuesToAdd flakyItem = [''b'', ''a'', ''b'']"
    by (simp_all add: flakyItem_def DeploymentsTreeItem_new_def)
  ultimately show ?thesis
    using createContextValue_deduped_sorted_joined
      [of "[''b'', ''a'', ''b'', ''deploymentsConnected'']" exampleHost flakyItem]
    by simp
qed

text \<open>
  C7. The base tag of the \<^verbatim>\<open>contextValue\<close> getter is \<^verbatim>\<open>deploymentsUnconnected\<close> exactly
  when the stored \<^verbatim>\<open>_scmType\<close> equals \<^verbatim>\<open>ScmType.None\<close>; for every other stored value,
  \<^verbatim>\<open>undefined\<close> included, it is \<^verbatim>\<open>deploymentsConnected\<close>. A freshly constructed item
  stores \<^verbatim>\<open>undefined\<close> and so reports itself as connected.
\<close>

theorem contextValue_base_tag:
  "(hd (contextValueTags H ti) = ''deploymentsUnconnected'' \<longleftrightarrow>
      private_scmType ti = Some (ScmType_None H)) \<and>
   (private_scmType ti \<noteq> Some (ScmType_None H) \<longrightarrow>
      hd (contextValueTags H ti) = ''deploymentsConnected'') \<and>
   contextValue H ti = createContextValue (hd (contextValueTags H ti) # contextValuesToAdd ti) \<and>
   private_scmType (DeploymentsTreeItem_new H p options) = None \<and>
   hd (contextValueTags H (DeploymentsTreeItem_new H p options)) = ''deploymentsConnected''"
  by (simp add: contextValueTags_def contextValue_def contextValueConnected_def
      contextValueUnconnected_def DeploymentsTreeItem_new_def)

theorem contextValue_base_tag_witness:
  "private_scmType (flakyItem\<lparr>private_scmType := Some ''None''\<rparr>) = Some (ScmType_None exampleHost) \<and>
   hd (contextValueTags exampleHost (flakyItem\<lparr>private_scmType := Some ''None''\<rparr>)) = ''deploymentsUnconnected'' \<and>
   private_scmType downItem \<noteq> Some (ScmType_None exampleHost) \<and>
   hd (contextValueTags exampleHost downItem) = ''deploymentsConnected''"
  using contextValue_base_tag [of exampleHost "flakyItem\<lparr>private_scmType := Some ''None''\<rparr>"]
    contextValue_base_tag [of exampleHost downItem]
  by (simp add: exampleHost_def downItem_def flakyItem_def DeploymentsTreeItem_new_def contextValueTags_def contextValueConnected_def
      contextValueUnconnected_def)

subsection \<open>Ordering of the children\<close>






subsection \<open>The stale-closer action\<close>

text \<open>
  C6. action.yml of the stale-closer declares inputs only: the token, \<^verbatim>\<open>closeDays\<close> and
  \<^verbatim>\<open>warnDays\<close>, \<^verbatim>\<open>closeComment\<close> and \<^verbatim>\<open>warnComment\<close>, \<^verbatim>\<open>upvotesRequired\<close> and
  \<^verbatim>\<open>numCommentsOverride\<close>, the candidate milestone, the label settings and the dry-run
  flag; it has no \<^verbatim>\<open>outputs\<close>. The token, the two label settings and the dry-run flag
  are the inputs not marked as required.
\<close>

theorem staleCloserAction_inputs_only:
  "map fst (action_inputs staleCloserAction) =
     [''token'', ''closeDays'', ''closeComment'', ''warnDays'', ''warnComment'',
      ''upvotesRequired'', ''numCommentsOverride'', ''candidateMilestone'',
      ''labelsToExclude'', ''staleLabel'', ''readonly''] \<and>
   action_outputs staleCloserAction = None \<and>
   map fst (filter (\<lambda>(n, i). input_required i \<noteq> Some True) (action_inputs staleCloserAction)) =
     [''token'', ''labelsToExclude'', ''staleLabel'', ''readonly'']"
  by (simp add: staleCloserAction_def)

subsection \<open>Site commands\<close>

lemma handleSiteErrors_friendly:
  "errorType (parseError error) = ''502'' \<or> errorType (parseError error) = ''503'' \<Longrightarrow>
   handleSiteErrors parseError localize context error =
     (Inl (NewError (message (parseError error) @ '' '' @
             localize ''502or503Troubleshooting''
               ''View troubleshooting tips [here](https://aka.ms/AA772mm).'')),
      context\<lparr> errorHandling := (errorHandling context)\<lparr> suppressReportIssue := Some True \<rparr> \<rparr>)"
  unfolding handleSiteErrors_def Let_def by (simp only: if_True)

lemma handleSiteErrors_other:
  "errorType (parseError error) \<noteq> ''502'' \<Longrightarrow> errorType (parseError error) \<noteq> ''503'' \<Longrightarrow>
   handleSiteErrors parseError localize context error = (Inl (Original error), context)"
  unfolding handleSiteErrors_def Let_def by (simp only: simp_thms if_False)

lemma siteCommandHandler_throw:
  "callback context args = (Inl error, context1) \<Longrightarrow>
   handleSiteErrors parseError localize context1 error = (Inl t, context2) \<Longrightarrow>
   siteCommandHandler parseError localize callback context args = (Inl t, context2)"
  by (simp add: siteCommandHandler_def)

text \<open>
  C2. \<^verbatim>\<open>registerSiteCommand\<close> registers the handler \<open>siteCommandHandler\<close>. When the
  callback throws an error whose parsed \<^verbatim>\<open>errorType\<close> is \<^verbatim>\<open>502\<close> or \<^verbatim>\<open>503\<close>, the handler
  sets \<^verbatim>\<open>context.errorHandling.suppressReportIssue\<close> to true and throws a new error
  whose message is the parsed message, a space and the troubleshooting-tips text. For
  any other \<^verbatim>\<open>errorType\<close> the original error is thrown and the context is left as the
  callback left it.
\<close>

theorem registerSiteCommand_502_503_message:
  "registerSiteCommand registerCommand parseError localize commandId callback debounce =
     registerCommand commandId (siteCommandHandler parseError localize callback) debounce \<and>
   (callback context args = (Inl error, context1) \<longrightarrow>
     (errorType (parseError error) = ''502'' \<or> errorType (parseError error) = ''503'' \<longrightarrow>
        siteCommandHandler parseError localize callback context args =
          (Inl (NewError (message (parseError error) @ '' '' @
                  localize ''502or503Troubleshooting''
                    ''View troubleshooting tips [here](https://aka.ms/AA772mm).'')),
           context1\<lparr> errorHandling :=
                       (errorHandling context1)\<lparr> suppressReportIssue := Some True \<rparr> \<rparr>)) \<and>
     (errorType (parseError error) \<noteq> ''502'' \<and> errorType (parseError error) \<noteq> ''503'' \<longrightarrow>
        siteCommandHandler parseError localize callback context args =
          (Inl (Original error), context1)))"
  using handleSiteErrors_friendly [of parseError error localize context1]
    handleSiteErrors_other [of parseError error localize context1]
    siteCommandHandler_throw [of callback "context" args error context1 parseError localize]
  by (simp add: registerSiteCommand_def)

theorem registerSiteCommand_502_503_message_witness:
  "throwingCallback (''503'', ''Service Unavailable'') exampleContext [] =
     (Inl (''503'', ''Service Unavailable''), exampleContext) \<and>
   errorType (exampleParseError (''503'', ''Service Unavailable'')) = ''503'' \<and>
   siteCommandHandler exampleParseError defaultLocalize
       (throwingCallback (''503'', ''Service Unavailable'')) exampleContext [] =
     (Inl (NewError
        ''Service Unavailable View troubleshooting tips [here](https://aka.ms/AA772mm).''),
      \<lparr> errorHandling =
          \<lparr> suppressDisplay = None, rethrow = None, suppressReportIssue = Some True,
            forceIncludeInReportIssueCommand = None \<rparr> \<rparr>) \<and>
   throwingCallback (''404'', ''Not Found'') exampleContext [] =
     (Inl (''404'', ''Not Found''), exampleContext) \<and>
   errorType (exampleParseError (''404'', ''Not Found'')) \<noteq> ''502'' \<and>
   errorType (exampleParseError (''404'', ''Not Found'')) \<noteq> ''503'' \<and>
   siteCommandHandler exampleParseError defaultLocalize
       (throwingCallback (''404'', ''Not Found'')) exampleContext [] =
     (Inl (Original (''404'', ''Not Found'')), exampleContext)"
proof -
  have thrown: "throwingCallback e exampleContext [] = (Inl e, exampleContext)" for e
    by (simp add: throwingCallback_def)
  have unavailable: "errorType (exampleParseError (''503'', ''Service Unavailable'')) = ''503''"
    and missing: "errorType (exampleParseError (''404'', ''Not Found'')) \<noteq> ''502''"
      "errorType (exampleParseError (''404'', ''Not Found'')) \<noteq> ''503''"
    by (simp_all add: exampleParseError_def)
  have msg: "message (exampleParseError (''503'', ''Service Unavailable'')) @ '' '' @
      defaultLocalize ''502or503Troubleshooting''
        ''View troubleshooting tips [here](https://aka.ms/AA772mm).'' =
      ''Service Unavailable View troubleshooting tips [here](https://aka.ms/AA772mm).''"
    by (simp add: exampleParseError_def defaultLocalize_def)
  have flagged: "exampleContext\<lparr> errorHandling :=
        (errorHandling exampleContext)\<lparr> suppressReportIssue := Some True \<rparr> \<rparr> =
      \<lparr> errorHandling =
          \<lparr> suppressDisplay = None, rethrow = None, suppressReportIssue = Some True,
            forceIncludeInReportIssueCommand = None \<rparr> \<rparr>"
    by (simp add: exampleContext_def)
  from registerSiteCommand_502_503_message
      [of undefined exampleParseError defaultLocalize undefined
          "throwingCallback (''503'', ''Service Unavailable'')" undefined exampleContext "[]"
          "(''503'', ''Service Unavailable'')" exampleContext]
    thrown unavailable
  have "siteCommandHandler exampleParseError defaultLocalize
       (throwingCallback (''503'', ''Service Unavailable'')) exampleContext [] =
     (Inl (NewError
        ''Service Unavailable View troubleshooting tips [here](https://aka.ms/AA772mm).''),
      \<lparr> errorHandling =
          \<lparr> suppressDisplay = None, rethrow = None, suppressReportIssue = Some True,
            forceIncludeInReportIssueCommand = None \<rparr> \<rparr>)"
    unfolding msg flagged by blast
  moreover from registerSiteCommand_502_503_message
      [of undefined exampleParseError defaultLocalize undefined
          "throwingCallback (''404'', ''Not Found'')" undefined exampleContext "[]"
          "(''404'', ''Not Found'')" exampleContext]
    thrown missing
  have "siteCommandHandler exampleParseError defaultLocalize
       (throwingCallback (''404'', ''Not Found'')) exampleContext [] =
     (Inl (Original (''404'', ''Not Found'')), exampleContext)"
    by blast
  ultimately show ?thesis
    using thrown unavailable missing by blast
qed

text \<open>
  C5. After a failure of the callback the handler never returns normally: it throws
  either the original error, unchanged, or the new troubleshooting error, and it throws
  the original one whenever the parsed \<^verbatim>\<open>errorType\<close> is neither \<^verbatim>\<open>502\<close> nor \<^verbatim>\<open>503\<close>.
  \<^verbatim>\<open>handleSiteErrors\<close> itself never returns. When the callback succeeds its result is
  returned unchanged.
\<close>

theorem registerSiteCommand_rethrows:
  "(\<forall>u. fst (handleSiteErrors parseError localize context1 error) \<noteq> Inr u) \<and>
   (callback context args = (Inl error, context1) \<longrightarrow>
      (\<forall>u. fst (siteCommandHandler parseError localize callback context args) \<noteq> Inr u) \<and>
      (fst (siteCommandHandler parseError localize callback context args) = Inl (Original error) \<or>
       fst (siteCommandHandler parseError localize callback context args) =
         Inl (NewError (message (parseError error) @ '' '' @
                localize ''502or503Troubleshooting''
                  ''View troubleshooting tips [here](https://aka.ms/AA772mm).''))) \<and>
      (errorType (parseError error) \<noteq> ''502'' \<and> errorType (parseError error) \<noteq> ''503'' \<longrightarrow>
         siteCommandHandler parseError localize callback context args =
           (Inl (Original error), context1))) \<and>
   (callback context args = (Inr r, context1) \<longrightarrow>
      siteCommandHandler parseError localize callback context args = (Inr (Result r), context1))"
proof -
  consider (friendly) "errorType (parseError error) = ''502'' \<or> errorType (parseError error) = ''503''"
    | (other) "errorType (parseError error) \<noteq> ''502''" "errorType (parseError error) \<noteq> ''503''"
    by blast
  then show ?thesis
  proof cases
    case friendly
    from handleSiteErrors_friendly [of parseError error localize context1] friendly
    show ?thesis
      by (auto simp add: siteCommandHandler_def)
  next
    case other
    from handleSiteErrors_other [of parseError error localize context1] other
    show ?thesis
      by (auto simp add: siteCommandHandler_def)
  qed
qed

theorem registerSiteCommand_rethrows_witness:
  "throwingCallback (''404'', ''Not Found'') exampleContext [] =
     (Inl (''404'', ''Not Found''), exampleContext) \<and>
   errorType (exampleParseError (''404'', ''Not Found'')) \<noteq> ''502'' \<and>
   errorType (exampleParseError (''404'', ''Not Found'')) \<noteq> ''503'' \<and>
   siteCommandHandler exampleParseError defaultLocalize
       (throwingCallback (''404'', ''Not Found'')) exampleContext [] =
     (Inl (Original (''404'', ''Not Found'')), exampleContext) \<and>
   summingCallback exampleContext [1, 2, 3] = (Inr 6, exampleContext) \<and>
   siteCommandHandler exampleParseError defaultLocalize summingCallback exampleContext [1, 2, 3] =
     (Inr (Result 6), exampleContext)"
  using registerSiteCommand_rethrows
      [of exampleParseError defaultLocalize exampleContext "(''404'', ''Not Found'')"
          "throwingCallback (''404'', ''Not Found'')" exampleContext "[]" 0]
    registerSiteCommand_rethrows
      [of exampleParseError defaultLocalize exampleContext "(''404'', ''Not Found'')"
          summingCallback exampleContext "[1, 2, 3]" 6]
  by (simp add: throwingCallback_def summingCallback_def exampleParseError_def)

subsection \<open>init and refreshImpl\<close>

lemma sdk_calls: "sdk c f W = (r, W') \<Longrightarrow> calls W' = calls W @ [c]"
  by (auto simp add: sdk_def split: prod.splits)

lemma init_cases:
  assumes "init context ti W = (r, ti', W')"
  shows "(\<exists>e. r = Inl e \<and> ti' = ti) \<or>
    (\<exists>client siteConfig sourceControl W1 W2.
       sdk CreateClient (createClient (site ti) context) W = (Inr client, W1) \<and>
       sdk GetSiteConfig (getSiteConfig client) W1 = (Inr siteConfig, W2) \<and>
       sdk GetSourceControl (getSourceControl client) W2 = (Inr sourceControl, W') \<and>
       r = Inr () \<and>
       ti' = ti\<lparr> private_scmType := scmType siteConfig,
                 private_repoUrl := repoUrl sourceControl \<rparr>)"
  using assms unfolding init_def
  by (auto split: prod.splits sum.splits)

lemma refreshImpl_init: "refreshImpl context ti W = init context ti W"
  by (simp add: refreshImpl_def init_def)

lemma init_numCalls:
  assumes "init context ti W = (r, ti', W')"
  shows "numCalls GetDeployResults W' = numCalls GetDeployResults W"
  using assms unfolding init_def numCalls_def
  by (auto split: prod.splits sum.splits dest!: sdk_calls)

text \<open>
  C9. When \<^verbatim>\<open>createClient\<close>, \<^verbatim>\<open>getSiteConfig\<close> and \<^verbatim>\<open>getSourceControl\<close> succeed, \<^verbatim>\<open>init\<close>
  and \<^verbatim>\<open>refreshImpl\<close> resolve with \<^verbatim>\<open>_scmType\<close> set to the \<^verbatim>\<open>scmType\<close> of the fetched site
  config and \<^verbatim>\<open>_repoUrl\<close> to the \<^verbatim>\<open>repoUrl\<close> of the fetched source control. Whatever
  the outcome, they change no other field of the tree item: \<^verbatim>\<open>parent\<close>, \<^verbatim>\<open>label\<close>,
  \<^verbatim>\<open>childTypeLabel\<close>, \<^verbatim>\<open>site\<close>, \<^verbatim>\<open>suppressMaskLabel\<close>, \<^verbatim>\<open>contextValuesToAdd\<close> and every
  further field are as before; when a call is rejected the item is unchanged.
\<close>

theorem init_refreshImpl_frame:
  "(sdk CreateClient (createClient (site ti) context) W = (Inr client, Wa) \<and>
    sdk GetSiteConfig (getSiteConfig client) Wa = (Inr siteConfig, Wb) \<and>
    sdk GetSourceControl (getSourceControl client) Wb = (Inr sourceControl, Wc) \<longrightarrow>
      init context ti W =
        (Inr (),
         ti\<lparr> private_scmType := scmType siteConfig, private_repoUrl := repoUrl sourceControl \<rparr>,
         Wc) \<and>
      refreshImpl context ti W =
        (Inr (),
         ti\<lparr> private_scmType := scmType siteConfig, private_repoUrl := repoUrl sourceControl \<rparr>,
         Wc)) \<and>
   (init context ti W = (r, ti', W') \<or> refreshImpl context ti W = (r, ti', W') \<longrightarrow>
      parent ti' = parent ti \<and> label ti' = label ti \<and>
      childTypeLabel ti' = childTypeLabel ti \<and> site ti' = site ti \<and>
      suppressMaskLabel ti' = suppressMaskLabel ti \<and>
      contextValuesToAdd ti' = contextValuesToAdd ti \<and>
      DeploymentsTreeItem.more ti' = DeploymentsTreeItem.more ti \<and>
      (\<forall>e. r = Inl e \<longrightarrow> ti' = ti) \<and>
      (\<forall>u. r = Inr u \<longrightarrow>
         (\<exists>client siteConfig sourceControl W1 W2.
            sdk CreateClient (createClient (site ti) context) W = (Inr client, W1) \<and>
            sdk GetSiteConfig (getSiteConfig client) W1 = (Inr siteConfig, W2) \<and>
            sdk GetSourceControl (getSourceControl client) W2 = (Inr sourceControl, W') \<and>
            private_scmType ti' = scmType siteConfig \<and>
            private_repoUrl ti' = repoUrl sourceControl)))"
proof (intro conjI impI)
  assume "sdk CreateClient (createClient (site ti) context) W = (Inr client, Wa) \<and>
    sdk GetSiteConfig (getSiteConfig client) Wa = (Inr siteConfig, Wb) \<and>
    sdk GetSourceControl (getSourceControl client) Wb = (Inr sourceControl, Wc)"
  then show "init context ti W =
        (Inr (),
         ti\<lparr> private_scmType := scmType siteConfig, private_repoUrl := repoUrl sourceControl \<rparr>,
         Wc)"
    and "refreshImpl context ti W =
        (Inr (),
         ti\<lparr> private_scmType := scmType siteConfig, private_repoUrl := repoUrl sourceControl \<rparr>,
         Wc)"
    by (simp_all add: init_def refreshImpl_def)
next
  assume "init context ti W = (r, ti', W') \<or> refreshImpl context ti W = (r, ti', W')"
  then have "init context ti W = (r, ti', W')"
    by (simp add: refreshImpl_init)
  from init_cases [OF this]
  have cases: "(\<exists>e. r = Inl e \<and> ti' = ti) \<or>
    (\<exists>client siteConfig sourceControl W1 W2.
       sdk CreateClient (createClient (site ti) context) W = (Inr client, W1) \<and>
       sdk GetSiteConfig (getSiteConfig client) W1 = (Inr siteConfig, W2) \<and>
       sdk GetSourceControl (getSourceControl client) W2 = (Inr sourceControl, W') \<and>
       r = Inr () \<and>
       ti' = ti\<lparr> private_scmType := scmType siteConfig,
                 private_repoUrl := repoUrl sourceControl \<rparr>)" .
  then have fields: "parent ti' = parent ti" "label ti' = label ti"
    "childTypeLabel ti' = childTypeLabel ti" "site ti' = site ti"
    "suppressMaskLabel ti' = suppressMaskLabel ti"
    "contextValuesToAdd ti' = contextValuesToAdd ti"
    "DeploymentsTreeItem.more ti' = DeploymentsTreeItem.more ti"
    by auto
  from cases have rejected: "\<forall>e. r = Inl e \<longrightarrow> ti' = ti"
    by auto
  from cases have resolved: "\<forall>u. r = Inr u \<longrightarrow>
         (\<exists>client siteConfig sourceControl W1 W2.
            sdk CreateClient (createClient (site ti) context) W = (Inr client, W1) \<and>
            sdk GetSiteConfig (getSiteConfig client) W1 = (Inr siteConfig, W2) \<and>
            sdk GetSourceControl (getSourceControl client) W2 = (Inr sourceControl, W') \<and>
            private_scmType ti' = scmType siteConfig \<and>
            private_repoUrl ti' = repoUrl sourceControl)"
  proof (elim disjE exE conjE)
    fix e assume "r = Inl e"
    then show ?thesis by simp
  next
    fix client siteConfig sourceControl W1 W2
    assume "sdk CreateClient (createClient (site ti) context) W = (Inr client, W1)"
      "sdk GetSiteConfig (getSiteConfig client) W1 = (Inr siteConfig, W2)"
      "sdk GetSourceControl (getSourceControl client) W2 = (Inr sourceControl, W')"
      "ti' = ti\<lparr> private_scmType := scmType siteConfig,
                 private_repoUrl := repoUrl sourceControl \<rparr>"
    moreover from this have "private_scmType ti' = scmType siteConfig"
      "private_repoUrl ti' = repoUrl sourceControl"
      by simp_all
    ultimately show ?thesis by blast
  qed
  from fields rejected resolved
  show "parent ti' = parent ti" "label ti' = label ti"
    "childTypeLabel ti' = childTypeLabel ti" "site ti' = site ti"
    "suppressMaskLabel ti' = suppressMaskLabel ti"
    "contextValuesToAdd ti' = contextValuesToAdd ti"
    "DeploymentsTreeItem.more ti' = DeploymentsTreeItem.more ti"
    "\<forall>e. r = Inl e \<longrightarrow> ti' = ti"
    "\<forall>u. r = Inr u \<longrightarrow>
         (\<exists>client siteConfig sourceControl W1 W2.
            sdk CreateClient (createClient (site ti) context) W = (Inr client, W1) \<and>
            sdk GetSiteConfig (getSiteConfig client) W1 = (Inr siteConfig, W2) \<and>
            sdk GetSourceControl (getSourceControl client) W2 = (Inr sourceControl, W') \<and>
            private_scmType ti' = scmType siteConfig \<and>
            private_repoUrl ti' = repoUrl sourceControl)"
    by blast+
qed

theorem init_refreshImpl_frame_witness:
  "sdk CreateClient (createClient (site flakyItem) exampleContext) freshWorld =
     (Inr flakyClient, \<lparr> backend = 0, calls = [CreateClient] \<rparr>) \<and>
   sdk GetSiteConfig (getSiteConfig flakyClient) \<lparr> backend = 0, calls = [CreateClient] \<rparr> =
     (Inr \<lparr> scmType = Some ''None'' \<rparr>, \<lparr> backend = 0, calls = [CreateClient, GetSiteConfig] \<rparr>) \<and>
   sdk GetSourceControl (getSourceControl flakyClient)
       \<lparr> backend = 0, calls = [CreateClient, GetSiteConfig] \<rparr> =
     (Inr \<lparr> repoUrl = None \<rparr>,
      \<lparr> backend = 0, calls = [CreateClient, GetSiteConfig, GetSourceControl] \<rparr>) \<and>
   init exampleContext flakyItem freshWorld =
     (Inr (), flakyItem\<lparr> private_scmType := Some ''None'', private_repoUrl := None \<rparr>,
      \<lparr> backend = 0, calls = [CreateClient, GetSiteConfig, GetSourceControl] \<rparr>) \<and>
   refreshImpl exampleContext flakyItem freshWorld =
     (Inr (), flakyItem\<lparr> private_scmType := Some ''None'', private_repoUrl := None \<rparr>,
      \<lparr> backend = 0, calls = [CreateClient, GetSiteConfig, GetSourceControl] \<rparr>) \<and>
   private_scmType flakyItem = None \<and>
   refreshImpl exampleContext downItem freshWorld =
     (Inl ''503'', downItem, \<lparr> backend = 0, calls = [CreateClient, GetSiteConfig] \<rparr>) \<and>
   contextValuesToAdd (flakyItem\<lparr> private_scmType := Some ''None'', private_repoUrl := None \<rparr>) =
     contextValuesToAdd flakyItem \<and>
   site (flakyItem\<lparr> private_scmType := Some ''None'', private_repoUrl := None \<rparr>) = site flakyItem"
proof -
  let ?Wa = "\<lparr> backend = 0 :: nat, calls = [CreateClient] \<rparr>"
  let ?Wb = "\<lparr> backend = 0 :: nat, calls = [CreateClient, GetSiteConfig] \<rparr>"
  let ?Wc = "\<lparr> backend = 0 :: nat, calls = [CreateClient, GetSiteConfig, GetSourceControl] \<rparr>"
  let ?ti = "flakyItem\<lparr> private_scmType := Some ''None'', private_repoUrl := None \<rparr>"
  have a: "sdk CreateClient (createClient (site flakyItem) exampleContext) freshWorld =
      (Inr flakyClient, ?Wa)"
    by (simp add: sdk_def flakyItem_def DeploymentsTreeItem_new_def flakySite_def freshWorld_def)
  have b: "sdk GetSiteConfig (getSiteConfig flakyClient) ?Wa =
      (Inr \<lparr> scmType = Some ''None'' \<rparr>, ?Wb)"
    by (simp add: sdk_def flakyClient_def)
  have c: "sdk GetSourceControl (getSourceControl flakyClient) ?Wb =
      (Inr \<lparr> repoUrl = None \<rparr>, ?Wc)"
    by (simp add: sdk_def flakyClient_def)
  have fresh: "private_scmType flakyItem = None"
    by (simp add: flakyItem_def DeploymentsTreeItem_new_def)
  have d: "refreshImpl exampleContext downItem freshWorld = (Inl ''503'', downItem, ?Wb)"
    by (simp add: refreshImpl_def sdk_def downItem_def DeploymentsTreeItem_new_def downSite_def
        downClient_def freshWorld_def)
  from init_refreshImpl_frame
      [of flakyItem exampleContext freshWorld flakyClient ?Wa "\<lparr> scmType = Some ''None'' \<rparr>"
          ?Wb "\<lparr> repoUrl = None \<rparr>" ?Wc "Inr ()" ?ti ?Wc] a b c
  have resolved: "init exampleContext flakyItem freshWorld = (Inr (), ?ti, ?Wc)"
    "refreshImpl exampleContext flakyItem freshWorld = (Inr (), ?ti, ?Wc)"
    "contextValuesToAdd ?ti = contextValuesToAdd flakyItem" "site ?ti = site flakyItem"
    by simp_all
  from a b c resolved fresh d show ?thesis by simp
qed

subsection \<open>loadMoreChildrenImpl and the getDeployResults call\<close>

lemma deployResultsCallback_one_call:
  "numCalls GetDeployResults (snd (deployResultsCallback client context W)) =
     Suc (numCalls GetDeployResults W)"
  by (simp add: deployResultsCallback_def sdk_def numCalls_def split: prod.splits)

lemma sdk_other_numCalls:
  "sdk c f W = (r, W') \<Longrightarrow> c \<noteq> GetDeployResults \<Longrightarrow>
   numCalls GetDeployResults W' = numCalls GetDeployResults W"
  by (auto simp add: numCalls_def dest!: sdk_calls)

text \<open>
  C3, as stated: every invocation of \<^verbatim>\<open>loadMoreChildrenImpl\<close> makes the
  \<^verbatim>\<open>getDeployResults\<close> call exactly once, with no retry wrapper of the repository around
  it. The call is handed to \<^verbatim>\<open>retryKuduCall\<close>; with a wrapper that runs its callback
  again after a rejection and a service that answers 502 once, the call is made twice.
  And when \<^verbatim>\<open>getSiteConfig\<close> is rejected, \<^verbatim>\<open>init\<close> throws and the call is not made.
\<close>

theorem loadMoreChildrenImpl_single_call_counterexample:
  "numCalls GetDeployResults freshWorld = 0 \<and>
   numCalls GetDeployResults (snd (snd (loadMoreChildrenImpl exampleHost (runWithRetries 3)
       mapTreeItems epochDeploymentTreeItem False exampleContext flakyItem freshWorld))) = 2 \<and>
   numCalls GetDeployResults (snd (snd (loadMoreChildrenImpl exampleHost runOnce
       mapTreeItems epochDeploymentTreeItem False exampleContext downItem freshWorld))) = 0"
  by code_simp

text \<open>
  C3, amended: \<^verbatim>\<open>loadMoreChildrenImpl\<close> makes the \<^verbatim>\<open>getDeployResults\<close> call through
  \<^verbatim>\<open>retryKuduCall\<close>. The callback it hands over makes exactly one call each time it is
  run. When \<^verbatim>\<open>init\<close> or the following \<^verbatim>\<open>createClient\<close> is rejected, the rejection is
  passed on and no call is made. Otherwise no call is made before the wrapper is
  reached, the calls made are those of the wrapper on that callback, and with a
  wrapper that runs its callback once the call is made exactly once.
\<close>

theorem loadMoreChildrenImpl_calls_through_retryKuduCall:
  "numCalls GetDeployResults (snd (deployResultsCallback client' context V)) =
     Suc (numCalls GetDeployResults V) \<and>
   (init context ti W = (Inl e, ti', W') \<longrightarrow>
      loadMoreChildrenImpl H retryKuduCall createTreeItems newDeploymentTreeItem clearCache
          context ti W = (Inl e, ti', W') \<and>
      numCalls GetDeployResults W' = numCalls GetDeployResults W) \<and>
   (init context ti W = (Inr u, ti', W') \<and>
    sdk CreateClient (createClient (site ti') context) W' = (Inl e, W'') \<longrightarrow>
      loadMoreChildrenImpl H retryKuduCall createTreeItems newDeploymentTreeItem clearCache
          context ti W = (Inl e, ti', W'') \<and>
      numCalls GetDeployResults W'' = numCalls GetDeployResults W) \<and>
   (init context ti W = (Inr u, ti', W') \<and>
    sdk CreateClient (createClient (site ti') context) W' = (Inr client, W'') \<longrightarrow>
      numCalls GetDeployResults W'' = numCalls GetDeployResults W \<and>
      snd (snd (loadMoreChildrenImpl H retryKuduCall createTreeItems newDeploymentTreeItem
          clearCache context ti W)) =
        snd (retryKuduCall context ''getDeployResults'' (deployResultsCallback client context) W'') \<and>
      numCalls GetDeployResults
        (snd (snd (loadMoreChildrenImpl H runOnce createTreeItems
            newDeploymentTreeItem clearCache context ti W))) =
        Suc (numCalls GetDeployResults W))"
proof (intro conjI impI)
  show "numCalls GetDeployResults (snd (deployResultsCallback client' context V)) =
     Suc (numCalls GetDeployResults V)"
    by (rule deployResultsCallback_one_call)
next
  assume a: "init context ti W = (Inl e, ti', W')"
  then show "loadMoreChildrenImpl H retryKuduCall createTreeItems newDeploymentTreeItem clearCache
          context ti W = (Inl e, ti', W')"
    by (simp add: loadMoreChildrenImpl_def)
  from a show "numCalls GetDeployResults W' = numCalls GetDeployResults W"
    by (rule init_numCalls)
next
  assume a: "init context ti W = (Inr u, ti', W') \<and>
    sdk CreateClient (createClient (site ti') context) W' = (Inl e, W'')"
  then show "loadMoreChildrenImpl H retryKuduCall createTreeItems newDeploymentTreeItem clearCache
          context ti W = (Inl e, ti', W'')"
    by (simp add: loadMoreChildrenImpl_def)
  from a show "numCalls GetDeployResults W'' = numCalls GetDeployResults W"
    using init_numCalls sdk_other_numCalls by (metis sdk_call.distinct(5))
next
  assume a: "init context ti W = (Inr u, ti', W') \<and>
    sdk CreateClient (createClient (site ti') context) W' = (Inr client, W'')"
  from a show n: "numCalls GetDeployResults W'' = numCalls GetDeployResults W"
    using init_numCalls sdk_other_numCalls by (metis sdk_call.distinct(5))
  from a show "snd (snd (loadMoreChildrenImpl H retryKuduCall createTreeItems newDeploymentTreeItem
          clearCache context ti W)) =
        snd (retryKuduCall context ''getDeployResults'' (deployResultsCallback client context) W'')"
    by (simp add: loadMoreChildrenImpl_def Let_def split: prod.splits sum.splits)
  from a have "snd (snd (loadMoreChildrenImpl H runOnce createTreeItems
            newDeploymentTreeItem clearCache context ti W)) =
      snd (deployResultsCallback client context W'')"
    by (simp add: loadMoreChildrenImpl_def runOnce_def Let_def split: prod.splits sum.splits)
  with n show "numCalls GetDeployResults
        (snd (snd (loadMoreChildrenImpl H runOnce createTreeItems
            newDeploymentTreeItem clearCache context ti W))) =
        Suc (numCalls GetDeployResults W)"
    by (simp add: deployResultsCallback_one_call)
qed

theorem loadMoreChildrenImpl_calls_through_retryKuduCall_witness:
  "init exampleContext downItem freshWorld =
     (Inl ''503'', downItem, \<lparr> backend = 0, calls = [CreateClient, GetSiteConfig] \<rparr>) \<and>
   loadMoreChildrenImpl exampleHost (runWithRetries 3) mapTreeItems epochDeploymentTreeItem
       False exampleContext downItem freshWorld =
     (Inl ''503'', downItem, \<lparr> backend = 0, calls = [CreateClient, GetSiteConfig] \<rparr>) \<and>
   init exampleContext lapsingItem freshWorld =
     (Inr (),
      lapsingItem\<lparr> private_scmType := Some ''GitHub'',
                   private_repoUrl := Some ''https://github.com/org/repo'' \<rparr>,
      \<lparr> backend = 1, calls = [CreateClient, GetSiteConfig, GetSourceControl] \<rparr>) \<and>
   loadMoreChildrenImpl exampleHost (runWithRetries 3) mapTreeItems epochDeploymentTreeItem
       False exampleContext lapsingItem freshWorld =
     (Inl ''401'',
      lapsingItem\<lparr> private_scmType := Some ''GitHub'',
                   private_repoUrl := Some ''https://github.com/org/repo'' \<rparr>,
      \<lparr> backend = 1, calls = [CreateClient, GetSiteConfig, GetSourceControl, CreateClient] \<rparr>) \<and>
   init exampleContext flakyItem freshWorld =
     (Inr (), flakyItem\<lparr> private_scmType := Some ''None'', private_repoUrl := None \<rparr>,
      \<lparr> backend = 0, calls = [CreateClient, GetSiteConfig, GetSourceControl] \<rparr>) \<and>
   numCalls GetDeployResults
     (snd (snd (loadMoreChildrenImpl exampleHost runOnce mapTreeItems epochDeploymentTreeItem
        False exampleContext flakyItem freshWorld))) = Suc (numCalls GetDeployResults freshWorld)"
proof -
  let ?down = "\<lparr> backend = 0 :: nat, calls = [CreateClient, GetSiteConfig] \<rparr>"
  let ?lapsing = "lapsingItem\<lparr> private_scmType := Some ''GitHub'',
                   private_repoUrl := Some ''https://github.com/org/repo'' \<rparr>"
  let ?W1 = "\<lparr> backend = 1 :: nat, calls = [CreateClient, GetSiteConfig, GetSourceControl] \<rparr>"
  let ?W2 = "\<lparr> backend = 1 :: nat,
               calls = [CreateClient, GetSiteConfig, GetSourceControl, CreateClient] \<rparr>"
  let ?flaky = "flakyItem\<lparr> private_scmType := Some ''None'', private_repoUrl := None \<rparr>"
  let ?V1 = "\<lparr> backend = 0 :: nat, calls = [CreateClient, GetSiteConfig, GetSourceControl] \<rparr>"
  let ?V2 = "\<lparr> backend = 0 :: nat,
               calls = [CreateClient, GetSiteConfig, GetSourceControl, CreateClient] \<rparr>"
  have down: "init exampleContext downItem freshWorld = (Inl ''503'', downItem, ?down)"
    by (simp add: init_def sdk_def downItem_def DeploymentsTreeItem_new_def downSite_def
        downClient_def freshWorld_def)
  have lapsing: "init exampleContext lapsingItem freshWorld = (Inr (), ?lapsing, ?W1)"
    by (simp add: init_def sdk_def lapsingItem_def DeploymentsTreeItem_new_def lapsingSite_def
        lapsingClient_def freshWorld_def)
  have lapsed: "sdk CreateClient (createClient (site ?lapsing) exampleContext) ?W1 =
      (Inl ''401'', ?W2)"
    by (simp add: sdk_def lapsingItem_def DeploymentsTreeItem_new_def lapsingSite_def)
  have flaky: "init exampleContext flakyItem freshWorld = (Inr (), ?flaky, ?V1)"
    by (simp add: init_def sdk_def flakyItem_def DeploymentsTreeItem_new_def flakySite_def
        flakyClient_def freshWorld_def)
  have client: "sdk CreateClient (createClient (site ?flaky) exampleContext) ?V1 =
      (Inr flakyClient, ?V2)"
    by (simp add: sdk_def flakyItem_def DeploymentsTreeItem_new_def flakySite_def)
  note calls_thm = loadMoreChildrenImpl_calls_through_retryKuduCall
  from calls_thm [where ti = downItem and W = freshWorld
      and e = "''503''" and ti' = downItem and W' = ?down and H = exampleHost
      and retryKuduCall = "runWithRetries 3" and createTreeItems = mapTreeItems
      and newDeploymentTreeItem = epochDeploymentTreeItem and clearCache = False] down
  have 1: "loadMoreChildrenImpl exampleHost (runWithRetries 3) mapTreeItems
      epochDeploymentTreeItem False exampleContext downItem freshWorld =
      (Inl ''503'', downItem, ?down)"
    by blast
  from calls_thm [where ti = lapsingItem and W = freshWorld
      and e = "''401''" and ti' = ?lapsing and W' = ?W1 and W'' = ?W2 and u = "()"
      and H = exampleHost
      and retryKuduCall = "runWithRetries 3" and createTreeItems = mapTreeItems
      and newDeploymentTreeItem = epochDeploymentTreeItem and clearCache = False] lapsing lapsed
  have 2: "loadMoreChildrenImpl exampleHost (runWithRetries 3) mapTreeItems
      epochDeploymentTreeItem False exampleContext lapsingItem freshWorld =
      (Inl ''401'', ?lapsing, ?W2)"
    by blast
  from calls_thm [where ti = flakyItem and W = freshWorld
      and ti' = ?flaky and W' = ?V1 and W'' = ?V2 and u = "()" and client = flakyClient
      and H = exampleHost
      and createTreeItems = mapTreeItems
      and newDeploymentTreeItem = epochDeploymentTreeItem and clearCache = False] flaky client
  have 3: "numCalls GetDeployResults
     (snd (snd (loadMoreChildrenImpl exampleHost runOnce mapTreeItems epochDeploymentTreeItem
        False exampleContext flakyItem freshWorld))) = Suc (numCalls GetDeployResults freshWorld)"
    by blast
  from down lapsing flaky 1 2 3 show ?thesis by blast
qed

subsection \<open>The closing rule of the stale-closer\<close>



end
